theory Spec2Isabelle
  imports Main "HOL-Library.Word" "HOL-Library.Sublist"
begin

unbundle bit_operations_syntax

section \<open>Strings\<close>

text \<open>
  A JavaScript string is modelled as a HOL \<^typ>\<open>string\<close>: a list of characters with codes
  0 to 255, read as UTF-16 code units below 256. Of the line terminators of ECMAScript
  (LF, CR, U+2028, U+2029) only LF and CR are in this range.
\<close>

section \<open>Anchor hasher\<close>

text \<open>
  The heading handlers compute \<^verbatim>\<open>createHash('md5').update(content.value).digest('hex')\<close>.
  \<^verbatim>\<open>update\<close> hashes the UTF-8 encoding of the string; \<^verbatim>\<open>digest('hex')\<close> prints the 16 bytes
  of the MD5 digest (RFC 1321) as 32 lower-case hexadecimal digits.
\<close>

type_synonym u8 = "8 word"
type_synonym u32 = "32 word"

definition md5_s :: "nat list" where
  "md5_s = [7, 12, 17, 22, 7, 12, 17, 22, 7, 12, 17, 22, 7, 12, 17, 22,
            5, 9, 14, 20, 5, 9, 14, 20, 5, 9, 14, 20, 5, 9, 14, 20,
            4, 11, 16, 23, 4, 11, 16, 23, 4, 11, 16, 23, 4, 11, 16, 23,
            6, 10, 15, 21, 6, 10, 15, 21, 6, 10, 15, 21, 6, 10, 15, 21]"

definition md5_K :: "u32 list" where
  "md5_K = [0xd76aa478, 0xe8c7b756, 0x242070db, 0xc1bdceee,
            0xf57c0faf, 0x4787c62a, 0xa8304613, 0xfd469501,
            0x698098d8, 0x8b44f7af, 0xffff5bb1, 0x895cd7be,
            0x6b901122, 0xfd987193, 0xa679438e, 0x49b40821,
            0xf61e2562, 0xc040b340, 0x265e5a51, 0xe9b6c7aa,
            0xd62f105d, 0x02441453, 0xd8a1e681, 0xe7d3fbc8,
            0x21e1cde6, 0xc33707d6, 0xf4d50d87, 0x455a14ed,
            0xa9e3e905, 0xfcefa3f8, 0x676f02d9, 0x8d2a4c8a,
            0xfffa3942, 0x8771f681, 0x6d9d6122, 0xfde5380c,
            0xa4beea44, 0x4bdecfa9, 0xf6bb4b60, 0xbebfbc70,
            0x289b7ec6, 0xeaa127fa, 0xd4ef3085, 0x04881d05,
            0xd9d4d039, 0xe6db99e5, 0x1fa27cf8, 0xc4ac5665,
            0xf4292244, 0x432aff97, 0xab9423a7, 0xfc93a039,
            0x655b59c3, 0x8f0ccc92, 0xffeff47d, 0x85845dd1,
            0x6fa87e4f, 0xfe2ce6e0, 0xa3014314, 0x4e0811a1,
            0xf7537e82, 0xbd3af235, 0x2ad7d2bb, 0xeb86d391]"

definition leftrotate :: "u32 \<Rightarrow> nat \<Rightarrow> u32" where
  "leftrotate x c = push_bit c x OR drop_bit (32 - c) x"

definition md5_step ::
  "u32 list \<Rightarrow> u32 \<times> u32 \<times> u32 \<times> u32 \<Rightarrow> nat \<Rightarrow> u32 \<times> u32 \<times> u32 \<times> u32" where
  "md5_step M st i = (case st of (a, b, c, d) \<Rightarrow>
     (let (f, g) =
        (if i < 16 then ((b AND c) OR (NOT b AND d), i)
         else if i < 32 then ((d AND b) OR (NOT d AND c), (5 * i + 1) mod 16)
         else if i < 48 then (b XOR c XOR d, (3 * i + 5) mod 16)
         else (c XOR (b OR NOT d), (7 * i) mod 16))
      in (d, b + leftrotate (f + a + md5_K ! i + M ! g) (md5_s ! i), b, c)))"

definition md5_block ::
  "u32 \<times> u32 \<times> u32 \<times> u32 \<Rightarrow> u32 list \<Rightarrow> u32 \<times> u32 \<times> u32 \<times> u32" where
  "md5_block h M = (case h of (a0, b0, c0, d0) \<Rightarrow>
     (case foldl (md5_step M) h [0..<64] of
        (a, b, c, d) \<Rightarrow> (a0 + a, b0 + b, c0 + c, d0 + d)))"

definition le_bytes32 :: "u32 \<Rightarrow> u8 list" where
  "le_bytes32 w = map (\<lambda>i. ucast (drop_bit (8 * i) w)) [0..<4]"

definition le_bytes64 :: "64 word \<Rightarrow> u8 list" where
  "le_bytes64 w = map (\<lambda>i. ucast (drop_bit (8 * i) w)) [0..<8]"

definition md5_pad :: "u8 list \<Rightarrow> u8 list" where
  "md5_pad bs = bs @ [0x80] @ replicate ((119 - length bs mod 64) mod 64) 0
                   @ le_bytes64 (8 * of_nat (length bs))"

fun le_words :: "u8 list \<Rightarrow> u32 list" where
  "le_words (b0 # b1 # b2 # b3 # bs) =
     (ucast b0 OR push_bit 8 (ucast b1) OR push_bit 16 (ucast b2) OR push_bit 24 (ucast b3))
       # le_words bs"
| "le_words _ = []"

fun chunks16 :: "'a list \<Rightarrow> 'a list list" where
  "chunks16 [] = []"
| "chunks16 (x # xs) = take 16 (x # xs) # chunks16 (drop 16 (x # xs))"

definition hex_digit :: "nat \<Rightarrow> char" where
  "hex_digit n = ''0123456789abcdef'' ! (n mod 16)"

definition hex_byte :: "u8 \<Rightarrow> string" where
  "hex_byte b = [hex_digit (unat (drop_bit 4 b)), hex_digit (unat (b AND 0xf))]"

definition md5_digest :: "u8 list \<Rightarrow> u8 list" where
  "md5_digest bs =
     (case foldl md5_block (0x67452301, 0xefcdab89, 0x98badcfe, 0x10325476)
             (chunks16 (le_words (md5_pad bs))) of
        (a, b, c, d) \<Rightarrow> concat (map le_bytes32 [a, b, c, d]))"

definition utf8_encode :: "string \<Rightarrow> u8 list" where
  "utf8_encode s = concat (map (\<lambda>c.
      (let n = (of_char c :: nat) in
       if n < 128 then [of_nat n]
       else [of_nat (192 + n div 64), of_nat (128 + n mod 64)])) s)"

definition md5_hex :: "string \<Rightarrow> string" where
  "md5_hex s = concat (map hex_byte (md5_digest (utf8_encode s)))"

definition anchor :: "string \<Rightarrow> string" where
  "anchor v = md5_hex v"

section \<open>Rich-text documents\<close>

text \<open>
  The node types the handlers are keyed by (\<^verbatim>\<open>BLOCKS.HEADING_2\<close>, ..., \<^verbatim>\<open>INLINES.HYPERLINK\<close>),
  the literal \<^verbatim>\<open>'text'\<close> the handlers compare with, and every other type.
\<close>

datatype node_type =
    BLOCKS_DOCUMENT
  | BLOCKS_HEADING_2 | BLOCKS_HEADING_3 | BLOCKS_HEADING_4 | BLOCKS_HEADING_5 | BLOCKS_HEADING_6
  | BLOCKS_PARAGRAPH
  | BLOCKS_EMBEDDED_ASSET
  | BLOCKS_EMBEDDED_ENTRY
  | INLINES_EMBEDDED_ENTRY
  | INLINES_HYPERLINK
  | TEXT
  | OTHER string

datatype mark = Mark (mark_type: string)

datatype js_value = JUndefined | JNull | JBoolean bool | JNumber int | JString string

text \<open>
  The fields of an embedded asset as the handler reads them: \<^verbatim>\<open>fields.file.url\<close>,
  \<^verbatim>\<open>fields.file.details.image.width\<close> and \<^verbatim>\<open>.height\<close>, \<^verbatim>\<open>fields.file.title\<close> and
  \<^verbatim>\<open>fields.description\<close>. A field that is \<^verbatim>\<open>undefined\<close> is \<open>None\<close>.
\<close>

record asset_fields =
  file_url :: string
  image_width :: int
  image_height :: int
  file_title :: "string option"
  description :: "string option"

text \<open>
  The fields of an embedded entry as the handlers read them: \<^verbatim>\<open>fields.title\<close>,
  \<^verbatim>\<open>fields.slug\<close>, \<^verbatim>\<open>fields.category.sys.id\<close> and \<^verbatim>\<open>sys.createdAt\<close>.
\<close>

record entry_fields =
  title :: "string option"
  slug :: string
  category_sys_id :: string
  sys_createdAt :: string

datatype target = AssetTarget asset_fields | EntryTarget entry_fields

text \<open>
  \<^verbatim>\<open>node.data\<close>: the key \<^verbatim>\<open>uri\<close> may be missing (\<open>None\<close>) or hold any value; \<^verbatim>\<open>target\<close> is
  missing or refers to an asset or an entry.
\<close>

record node_data =
  uri :: "js_value option"
  target :: "target option"

text \<open>
  A node as the handlers read it. \<^verbatim>\<open>content\<close>, \<^verbatim>\<open>marks\<close> and \<^verbatim>\<open>value\<close> are \<open>None\<close> where the
  object has no such property.
\<close>

datatype node =
  Node (nodeType: node_type) (content: "node list option") (marks: "mark list option")
       (text_value: "string option") (data: node_data)

section \<open>Output tree\<close>

datatype jsx_prop = PString string | PNumber int | PUndefined | PObject "(string \<times> jsx_prop) list"

datatype react_node =
    Element string "(string \<times> jsx_prop) list" "react_node list"
  | TextNode string
  | Nodes "react_node list"
  | Null
  | Undefined

datatype error = TypeError | RangeError

text \<open>
  A handler takes the node and its rendered children, the array the renderer library
  builds from \<^verbatim>\<open>node.content\<close>.
\<close>

type_synonym handler = "node \<Rightarrow> react_node list \<Rightarrow> error + react_node"

section \<open>Category links\<close>

record CategoryLink =
  link_title :: string
  link_count :: int
  link_path :: string
  link_id :: string

text \<open>
  \<^verbatim>\<open>categories.reduce((acc, value) => ({...acc, [value.id]: value}), {})\<close>. A key that no
  category has reads as \<^verbatim>\<open>undefined\<close> after \<^verbatim>\<open>?.path\<close>, also a key that names a property
  of \<^verbatim>\<open>Object.prototype\<close>, which has no \<^verbatim>\<open>path\<close>.
\<close>

definition categoryMap :: "CategoryLink list \<Rightarrow> (string \<rightharpoonup> CategoryLink)" where
  "categoryMap categories = foldl (\<lambda>acc v. acc(link_id v \<mapsto> v)) Map.empty categories"

text \<open>A value inside a template literal: \<^verbatim>\<open>undefined\<close> prints as the word.\<close>

definition template :: "string option \<Rightarrow> string" where
  "template v = (case v of None \<Rightarrow> ''undefined'' | Some s \<Rightarrow> s)"

section \<open>Link classifier\<close>

text \<open>
  \<^verbatim>\<open>node.data.uri.match(/\/youtu.be\/(.+)$/)\<close>. The dot matches every character but a line
  terminator. \<open>match_at\<close> is a match that starts at the head of the string: since \<^verbatim>\<open>$\<close>
  only matches at the end of the input, the group takes the whole rest, which has to be
  non-empty and free of line terminators. \<open>String_match\<close> tries the start positions from
  the left and returns the match array: the matched text and the group.
\<close>

definition line_terminator :: "char \<Rightarrow> bool" where
  "line_terminator c \<longleftrightarrow> c = CHR 0x0A \<or> c = CHR 0x0D"

definition match_at :: "string \<Rightarrow> string option" where
  "match_at s =
     (if take 6 s = ''/youtu'' \<and> 10 < length s \<and> \<not> line_terminator (s ! 6)
         \<and> take 3 (drop 7 s) = ''be/'' \<and> \<not> list_ex line_terminator (drop 10 s)
      then Some (drop 10 s) else None)"

fun String_match :: "string \<Rightarrow> string list option" where
  "String_match [] = None"
| "String_match (c # cs) =
     (case match_at (c # cs) of
        Some g \<Rightarrow> Some [c # cs, g]
      | None \<Rightarrow> String_match cs)"

datatype link_kind = Video string | Generic

definition classify :: "string \<Rightarrow> link_kind" where
  "classify u =
     (case String_match u of
        Some matched \<Rightarrow> if 2 \<le> length matched then Video (matched ! 1) else Generic
      | None \<Rightarrow> Generic)"

section \<open>Node renderer table\<close>

text \<open>\<^verbatim>\<open>node.content?.slice(0, 1).shift()\<close>\<close>

definition first_content :: "node \<Rightarrow> node option" where
  "first_content n =
     (case content n of
        None \<Rightarrow> None
      | Some cs \<Rightarrow> (case take 1 cs of [] \<Rightarrow> None | c # _ \<Rightarrow> Some c))"

text \<open>
  The five heading handlers differ in the \<^verbatim>\<open>variant\<close> and the \<^verbatim>\<open>sx\<close> of the element only.
\<close>

definition heading :: "string \<Rightarrow> (string \<times> jsx_prop) list \<Rightarrow> handler" where
  "heading variant sx n children =
     (case first_content n of
        None \<Rightarrow> Inr (Nodes children)
      | Some c \<Rightarrow>
          (case text_value c of
             None \<Rightarrow> Inr (Nodes children)
           | Some v \<Rightarrow>
               if nodeType c = TEXT
               then Inr (Element ''Typography''
                          ([(''id'', PString (anchor v)), (''variant'', PString variant)] @ sx)
                          [Nodes children])
               else Inr (Nodes children)))"

definition heading_2 :: handler where
  "heading_2 = heading ''h2''
     [(''sx'', PObject [(''marginTop'', PString ''32px''), (''marginBottom'', PString ''16px'')])]"

definition heading_3 :: handler where
  "heading_3 = heading ''h3''
     [(''sx'', PObject [(''borderBottom'', PString ''solid 2px''), (''lineHeight'', PNumber 2)])]"

definition heading_4 :: handler where
  "heading_4 = heading ''h4'' []"

definition heading_5 :: handler where
  "heading_5 = heading ''h5'' []"

definition heading_6 :: handler where
  "heading_6 = heading ''h6'' []"

text \<open>
  The paragraph handler. \<^verbatim>\<open>content?.marks.find(...)\<close> guards \<^verbatim>\<open>content\<close> only: on a first
  child without a \<^verbatim>\<open>marks\<close> property, \<^verbatim>\<open>.find\<close> is read from \<^verbatim>\<open>undefined\<close> and a TypeError
  is thrown.
\<close>

definition paragraph_block :: handler where
  "paragraph_block n children =
     (case first_content n of
        None \<Rightarrow> Inr (Element ''p'' [] [Nodes children])
      | Some c \<Rightarrow>
          (case marks c of
             None \<Rightarrow> Inl TypeError
           | Some ms \<Rightarrow>
               if find (\<lambda>x. mark_type x = ''code'') ms \<noteq> None
               then Inr (Element ''div'' [] [Element ''pre'' [] [Element ''code'' [] [Nodes children]]])
               else if nodeType c = TEXT
               then Inr (Element ''Text'' [] [Nodes children])
               else Inr (Element ''p'' [] [Nodes children])))"

definition opt_prop :: "string option \<Rightarrow> jsx_prop" where
  "opt_prop v = (case v of None \<Rightarrow> PUndefined | Some s \<Rightarrow> PString s)"

definition opt_child :: "string option \<Rightarrow> react_node" where
  "opt_child v = (case v of None \<Rightarrow> Undefined | Some s \<Rightarrow> TextNode s)"

definition embedded_asset :: handler where
  "embedded_asset n children =
     (case target (data n) of
        Some (AssetTarget flds) \<Rightarrow>
          Inr (Element ''Box'' [(''sx'', PObject [(''margin'', PString ''16px 0'')])]
                [Element ''Image''
                   [(''src'', PString (''https:'' @ file_url flds)),
                    (''width'', PNumber (image_width flds)),
                    (''height'', PNumber (image_height flds)),
                    (''alt'', opt_prop (file_title flds))] [],
                 if description flds \<noteq> Some ''''
                 then Element ''Typography'' [(''variant'', PString ''caption'')]
                        [opt_child (description flds)]
                 else Null])
      | _ \<Rightarrow> Inl TypeError)"

text \<open>
  \<open>format_date\<close> stands for \<^verbatim>\<open>format(new Date(createdAt), 'yyyy...')\<close> of date-fns, which
  throws a RangeError (\<open>None\<close>) on a time value that is not valid.
\<close>

definition entry_href :: "(string \<rightharpoonup> CategoryLink) \<Rightarrow> entry_fields \<Rightarrow> string" where
  "entry_href cm flds =
     (let categorySlug = map_option link_path (cm (category_sys_id flds));
          slug = slug flds
      in template categorySlug @ ''/'' @ slug)"

definition embedded_entry_block ::
  "(string \<Rightarrow> string option) \<Rightarrow> (string \<rightharpoonup> CategoryLink) \<Rightarrow> handler" where
  "embedded_entry_block format_date cm n children =
     (case target (data n) of
        Some (EntryTarget flds) \<Rightarrow>
          (let title = (case title flds of None \<Rightarrow> '''' | Some t \<Rightarrow> t);
               createdAt = sys_createdAt flds
           in case format_date createdAt of
                None \<Rightarrow> Inl RangeError
              | Some date \<Rightarrow>
                  Inr (Element ''SmallArticleCard''
                        [(''title'', PString title),
                         (''href'', PString (entry_href cm flds)),
                         (''date'', PString date)] []))
      | _ \<Rightarrow> Inl TypeError)"

definition embedded_entry_inline :: "(string \<rightharpoonup> CategoryLink) \<Rightarrow> handler" where
  "embedded_entry_inline cm n children =
     (case target (data n) of
        Some (EntryTarget flds) \<Rightarrow>
          (let title = (case title flds of None \<Rightarrow> '''' | Some t \<Rightarrow> t)
           in Inr (Element ''a'' [(''href'', PString (entry_href cm flds))] [TextNode title]))
      | _ \<Rightarrow> Inl TypeError)"

text \<open>\<^verbatim>\<open>'uri' in node.data && typeof node.data.uri === 'string'\<close>\<close>

definition string_uri :: "node \<Rightarrow> string option" where
  "string_uri n = (case uri (data n) of Some (JString u) \<Rightarrow> Some u | _ \<Rightarrow> None)"

text \<open>\<^verbatim>\<open>content?.value ?? node.data.uri\<close>\<close>

definition link_label :: "node \<Rightarrow> string \<Rightarrow> string" where
  "link_label n u =
     (case first_content n of
        None \<Rightarrow> u
      | Some c \<Rightarrow> (case text_value c of None \<Rightarrow> u | Some v \<Rightarrow> v))"

definition hyperlink :: handler where
  "hyperlink n children =
     (if nodeType n = INLINES_HYPERLINK
      then (case string_uri n of
              Some u \<Rightarrow>
                (case classify u of
                   Video videoId \<Rightarrow>
                     Inr (Element ''YouTubeEmbed'' []
                           [Element ''YouTube'' [(''videoId'', PString videoId)] []])
                 | Generic \<Rightarrow>
                     Inr (Element ''a''
                           [(''href'', PString u), (''target'', PString ''_blank''),
                            (''rel'', PString ''noreferrer noopener'')]
                           [TextNode (link_label n u)]))
            | None \<Rightarrow> Inr (Nodes children))
      else Inr (Nodes children))"

definition renderNode ::
  "(string \<Rightarrow> string option) \<Rightarrow> CategoryLink list \<Rightarrow> node_type \<Rightarrow> handler option" where
  "renderNode format_date categories t =
     (case t of
        BLOCKS_HEADING_2 \<Rightarrow> Some heading_2
      | BLOCKS_HEADING_3 \<Rightarrow> Some heading_3
      | BLOCKS_HEADING_4 \<Rightarrow> Some heading_4
      | BLOCKS_HEADING_5 \<Rightarrow> Some heading_5
      | BLOCKS_HEADING_6 \<Rightarrow> Some heading_6
      | BLOCKS_PARAGRAPH \<Rightarrow> Some paragraph_block
      | BLOCKS_EMBEDDED_ASSET \<Rightarrow> Some embedded_asset
      | BLOCKS_EMBEDDED_ENTRY \<Rightarrow>
          Some (embedded_entry_block format_date (categoryMap categories))
      | INLINES_EMBEDDED_ENTRY \<Rightarrow> Some (embedded_entry_inline (categoryMap categories))
      | INLINES_HYPERLINK \<Rightarrow> Some hyperlink
      | _ \<Rightarrow> None)"

section \<open>Table of contents\<close>

text \<open>
  Modelled from the spec: the component \<^verbatim>\<open>TableOfContents\<close> is imported by the page but its
  code is not part of the sources at hand. The spec (4.5) has it scan the document for the
  headings of levels 2 to 6, in order, skip a heading whose first child is not a text-run,
  and list level, text and anchor of every other one, the anchor computed by the same
  hasher as in the heading handlers.
\<close>

definition heading_level :: "node_type \<Rightarrow> nat option" where
  "heading_level t =
     (case t of
        BLOCKS_HEADING_2 \<Rightarrow> Some 2
      | BLOCKS_HEADING_3 \<Rightarrow> Some 3
      | BLOCKS_HEADING_4 \<Rightarrow> Some 4
      | BLOCKS_HEADING_5 \<Rightarrow> Some 5
      | BLOCKS_HEADING_6 \<Rightarrow> Some 6
      | _ \<Rightarrow> None)"

primrec headings_of :: "node \<Rightarrow> node list" where
  "headings_of (Node t c m v d) =
     (if heading_level t \<noteq> None then [Node t c m v d] else [])
     @ (case map_option (map headings_of) c of None \<Rightarrow> [] | Some hs \<Rightarrow> concat hs)"

record toc_entry =
  toc_level :: nat
  toc_text :: string
  toc_anchor :: string

definition is_text_run :: "node \<Rightarrow> bool" where
  "is_text_run c \<longleftrightarrow> nodeType c = TEXT \<and> text_value c \<noteq> None"

definition toc_entry_of :: "node \<Rightarrow> toc_entry option" where
  "toc_entry_of h =
     (case (heading_level (nodeType h), first_content h) of
        (Some l, Some c) \<Rightarrow>
          (case text_value c of
             Some v \<Rightarrow>
               if is_text_run c
               then Some \<lparr>toc_level = l, toc_text = v, toc_anchor = anchor v\<rparr>
               else None
           | None \<Rightarrow> None)
      | _ \<Rightarrow> None)"

definition tableOfContents :: "node \<Rightarrow> toc_entry list" where
  "tableOfContents doc = List.map_filter toc_entry_of (headings_of doc)"

section \<open>Reading the output\<close>

text \<open>The \<^verbatim>\<open>id\<close> attribute of an output element, if it has one.\<close>

definition element_id :: "react_node \<Rightarrow> string option" where
  "element_id out =
     (case out of
        Element tag props cs \<Rightarrow>
          (case map_of props ''id'' of Some (PString a) \<Rightarrow> Some a | _ \<Rightarrow> None)
      | _ \<Rightarrow> None)"

text \<open>
  The identifier the renderer table attaches to a heading, given the rendered children.
\<close>

definition rendered_id ::
  "(string \<Rightarrow> string option) \<Rightarrow> CategoryLink list \<Rightarrow> (node \<Rightarrow> react_node list) \<Rightarrow> node
     \<Rightarrow> string option" where
  "rendered_id format_date categories kids h =
     (case renderNode format_date categories (nodeType h) of
        None \<Rightarrow> None
      | Some handler \<Rightarrow>
          (case handler h (kids h) of Inl e \<Rightarrow> None | Inr out \<Rightarrow> element_id out))"

section \<open>The shapes of the data model\<close>

definition no_data :: node_data where
  "no_data = \<lparr>uri = None, target = None\<rparr>"

definition text_run :: "string \<Rightarrow> mark list \<Rightarrow> node" where
  "text_run v ms = Node TEXT None (Some ms) (Some v) no_data"

definition block :: "node_type \<Rightarrow> node list \<Rightarrow> node" where
  "block t cs = Node t (Some cs) None None no_data"

definition hyperlink_node :: "string \<Rightarrow> node list \<Rightarrow> node" where
  "hyperlink_node u cs =
     Node INLINES_HYPERLINK (Some cs) None None \<lparr>uri = Some (JString u), target = None\<rparr>"

definition asset_node :: "asset_fields \<Rightarrow> node" where
  "asset_node a =
     Node BLOCKS_EMBEDDED_ASSET (Some []) None None \<lparr>uri = None, target = Some (AssetTarget a)\<rparr>"

definition entry_node :: "node_type \<Rightarrow> entry_fields \<Rightarrow> node" where
  "entry_node t e = Node t (Some []) None None \<lparr>uri = None, target = Some (EntryTarget e)\<rparr>"

text \<open>
  The node shapes of the data model (spec, section 3): a text-run has a value and marks;
  headings, paragraphs and the document have children; an embedded asset refers to an
  asset and an embedded entry to an entry; a hyperlink has a string \<^verbatim>\<open>uri\<close> and children.
  \<open>shape_ok\<close> checks one node, given the verdicts on its children; marks are asked of
  text-runs only.
\<close>

definition shape_ok ::
  "node_type \<Rightarrow> bool list option \<Rightarrow> mark list option \<Rightarrow> string option \<Rightarrow> node_data \<Rightarrow> bool" where
  "shape_ok t c m v d =
     (case t of
        TEXT \<Rightarrow> v \<noteq> None \<and> m \<noteq> None
      | BLOCKS_EMBEDDED_ASSET \<Rightarrow>
          (case target d of Some (AssetTarget a) \<Rightarrow> True | _ \<Rightarrow> False)
      | BLOCKS_EMBEDDED_ENTRY \<Rightarrow>
          (case target d of Some (EntryTarget e) \<Rightarrow> True | _ \<Rightarrow> False)
      | INLINES_EMBEDDED_ENTRY \<Rightarrow>
          (case target d of Some (EntryTarget e) \<Rightarrow> True | _ \<Rightarrow> False)
      | INLINES_HYPERLINK \<Rightarrow>
          (case uri d of Some (JString u) \<Rightarrow> True | _ \<Rightarrow> False)
          \<and> (case c of None \<Rightarrow> False | Some bs \<Rightarrow> list_all (\<lambda>b. b) bs)
      | _ \<Rightarrow> (case c of None \<Rightarrow> False | Some bs \<Rightarrow> list_all (\<lambda>b. b) bs))"

primrec well_typed :: "node \<Rightarrow> bool" where
  "well_typed (Node t c m v d) = shape_ok t (map_option (map well_typed) c) m v d"

text \<open>
  The value of the first child that is a text-run, as the spec words the label of a
  generic link.
\<close>

definition first_text_child :: "node \<Rightarrow> string option" where
  "first_text_child n =
     (case content n of
        None \<Rightarrow> None
      | Some cs \<Rightarrow> (case filter is_text_run cs of [] \<Rightarrow> None | c # _ \<Rightarrow> text_value c))"

text \<open>
  The host a URI names: what stands between the two slashes after the scheme and the
  next slash.
\<close>

definition uri_host :: "string \<Rightarrow> string" where
  "uri_host u =
     takeWhile (\<lambda>c. c \<noteq> CHR ''/'') (drop 2 (dropWhile (\<lambda>c. c \<noteq> CHR ''/'') u))"

section \<open>Output shapes named in the theorems\<close>

definition level_variant :: "nat \<Rightarrow> string" where
  "level_variant l = ''h'' @ [hex_digit l]"

definition box :: "react_node list \<Rightarrow> react_node" where
  "box cs = Element ''Box'' [(''sx'', PObject [(''margin'', PString ''16px 0'')])] cs"

definition asset_image :: "asset_fields \<Rightarrow> react_node" where
  "asset_image a =
     Element ''Image''
       [(''src'', PString (''https:'' @ file_url a)), (''width'', PNumber (image_width a)),
        (''height'', PNumber (image_height a)), (''alt'', opt_prop (file_title a))] []"

definition caption :: "react_node \<Rightarrow> react_node" where
  "caption c = Element ''Typography'' [(''variant'', PString ''caption'')] [c]"

definition resolved_href :: "(string \<rightharpoonup> CategoryLink) \<Rightarrow> entry_fields \<Rightarrow> string" where
  "resolved_href cm e =
     (case cm (category_sys_id e) of
        None \<Rightarrow> ''undefined/'' @ slug e
      | Some c \<Rightarrow> link_path c @ ''/'' @ slug e)"

definition external_link :: "string \<Rightarrow> string \<Rightarrow> react_node" where
  "external_link u label =
     Element ''a''
       [(''href'', PString u), (''target'', PString ''_blank''),
        (''rel'', PString ''noreferrer noopener'')]
       [TextNode label]"

definition video_embed :: "string \<Rightarrow> react_node" where
  "video_embed videoId =
     Element ''YouTubeEmbed'' [] [Element ''YouTube'' [(''videoId'', PString videoId)] []]"

definition children_of :: "node \<Rightarrow> node list" where
  "children_of n = (case content n of None \<Rightarrow> [] | Some cs \<Rightarrow> cs)"

section \<open>Example documents\<close>

definition example_asset :: "string option \<Rightarrow> asset_fields" where
  "example_asset d =
     \<lparr>file_url = ''//images.example.com/a.png'', image_width = 640, image_height = 480,
      file_title = Some ''A'', description = d\<rparr>"

definition example_entry :: "string \<Rightarrow> entry_fields" where
  "example_entry cat =
     \<lparr>title = Some ''Foo'', slug = ''foo'', category_sys_id = cat,
      sys_createdAt = ''2021-05-01T10:00:00Z''\<rparr>"

definition example_categories :: "CategoryLink list" where
  "example_categories =
     [\<lparr>link_title = ''Tech'', link_count = 3, link_path = ''/tech'', link_id = ''cat1''\<rparr>]"

definition example_document :: node where
  "example_document =
     block BLOCKS_DOCUMENT
       [block BLOCKS_HEADING_2 [text_run ''Intro'' []],
        block BLOCKS_PARAGRAPH [text_run ''Hello'' []],
        block BLOCKS_HEADING_3
          [hyperlink_node ''https://example.com/page'' [text_run ''the page'' []]],
        block BLOCKS_HEADING_4 [text_run ''Details'' [], text_run '' and more'' []]]"

definition paragraph_with_leading_link :: node where
  "paragraph_with_leading_link =
     block BLOCKS_PARAGRAPH
       [hyperlink_node ''https://example.com/page'' [text_run ''This page'' []],
        text_run '' has the details.'' []]"

definition paragraph_with_leading_entry :: node where
  "paragraph_with_leading_entry =
     block BLOCKS_PARAGRAPH
       [entry_node INLINES_EMBEDDED_ENTRY (example_entry ''cat1''),
        text_run '' explains it.'' []]"

section \<open>Basic facts\<close>

lemma first_content_simps:
  "first_content (Node t None m v d) = None"
  "first_content (Node t (Some []) m v d) = None"
  "first_content (Node t (Some (c # cs)) m v d) = Some c"
  by (simp_all add: first_content_def)

lemmas heading_defs =
  heading_2_def heading_3_def heading_4_def heading_5_def heading_6_def heading_def

lemmas shape_defs =
  block_def text_run_def hyperlink_node_def asset_node_def entry_node_def no_data_def

section \<open>The digest of an example\<close>

text \<open>
  The MD5 digest of the text \<^verbatim>\<open>Intro\<close>, as \<^verbatim>\<open>md5sum\<close> prints it, computed round by round:
  the 64 steps of the one block are split into the four rounds of 16 steps.
\<close>

lemma md5_block_rounds:
  "md5_block h M =
     (case h of (a0, b0, c0, d0) \<Rightarrow>
        (case foldl (md5_step M)
                (foldl (md5_step M)
                   (foldl (md5_step M) (foldl (md5_step M) h [0..<16]) [16..<32]) [32..<48])
                [48..<64] of
           (a, b, c, d) \<Rightarrow> (a0 + a, b0 + b, c0 + c, d0 + d)))"
proof -
  have "[0..<64] = [0..<16] @ [16..<32] @ [32..<48] @ [48..<64]"
    by (simp add: upt_conv_Cons)
  then show ?thesis
    by (simp add: md5_block_def)
qed

lemmas md5_step_eval = md5_step_def md5_K_def md5_s_def leftrotate_def upt_conv_Cons

lemma utf8_two_bytes: "utf8_encode [CHR 0xE9] = [0xc3, 0xa9]"
  by (simp add: utf8_encode_def)

lemma utf8_Intro: "utf8_encode ''Intro'' = [0x49, 0x6e, 0x74, 0x72, 0x6f]"
  by (simp add: utf8_encode_def)

lemma replicate_50: "replicate 50 (0 :: u8) =
  [0, 0, 0, 0, 0, 0, 0, 0, 0, 0, 0, 0, 0, 0, 0, 0, 0, 0, 0, 0, 0, 0, 0, 0, 0,
   0, 0, 0, 0, 0, 0, 0, 0, 0, 0, 0, 0, 0, 0, 0, 0, 0, 0, 0, 0, 0, 0, 0, 0, 0]"
  by (simp add: eval_nat_numeral)

lemma words_Intro:
  "le_words (md5_pad [0x49, 0x6e, 0x74, 0x72, 0x6f]) =
     [0x72746e49, 0x0000806f, 0, 0, 0, 0, 0, 0, 0, 0, 0, 0, 0, 0, 0x28, 0]"
  by (simp add: md5_pad_def le_bytes64_def upt_conv_Cons replicate_50)

lemma round1_Intro:
  "foldl (md5_step [0x72746e49, 0x0000806f, 0, 0, 0, 0, 0, 0, 0, 0, 0, 0, 0, 0, 0x28, 0])
     (0x67452301, 0xefcdab89, 0x98badcfe, 0x10325476) [0..<16]
   = (0xa069258f, 0xf2889a6c, 0xfcb1aca5, 0x9ec0753c)"
  by (simp add: md5_step_eval)

lemma round2_Intro:
  "foldl (md5_step [0x72746e49, 0x0000806f, 0, 0, 0, 0, 0, 0, 0, 0, 0, 0, 0, 0, 0x28, 0])
     (0xa069258f, 0xf2889a6c, 0xfcb1aca5, 0x9ec0753c) [16..<32]
   = (0x53dc1ccb, 0x99f1b9b3, 0x27130052, 0x98fda61f)"
  by (simp add: md5_step_eval)

lemma round3_Intro:
  "foldl (md5_step [0x72746e49, 0x0000806f, 0, 0, 0, 0, 0, 0, 0, 0, 0, 0, 0, 0, 0x28, 0])
     (0x53dc1ccb, 0x99f1b9b3, 0x27130052, 0x98fda61f) [32..<48]
   = (0x0fa253f5, 0x239d8a01, 0xe78bf2f8, 0xb34b51c9)"
  by (simp add: md5_step_eval)

lemma round4_Intro:
  "foldl (md5_step [0x72746e49, 0x0000806f, 0, 0, 0, 0, 0, 0, 0, 0, 0, 0, 0, 0, 0x28, 0])
     (0x0fa253f5, 0x239d8a01, 0xe78bf2f8, 0xb34b51c9) [48..<64]
   = (0x6cf08a1b, 0x35290e2a, 0x8b0450fa, 0x78bf5607)"
  by (simp add: md5_step_eval)

lemma block_Intro:
  "md5_block (0x67452301, 0xefcdab89, 0x98badcfe, 0x10325476)
     [0x72746e49, 0x0000806f, 0, 0, 0, 0, 0, 0, 0, 0, 0, 0, 0, 0, 0x28, 0]
   = (0xd435ad1c, 0x24f6b9b3, 0x23bf2df8, 0x88f1aa7d)"
  unfolding md5_block_rounds round1_Intro round2_Intro round3_Intro round4_Intro
  by simp

lemma digest_Intro:
  "md5_digest (utf8_encode ''Intro'') =
     [0x1c, 0xad, 0x35, 0xd4, 0xb3, 0xb9, 0xf6, 0x24, 0xf8, 0x2d, 0xbf, 0x23, 0x7d, 0xaa, 0xf1, 0x88]"
  by (simp add: md5_digest_def utf8_Intro words_Intro block_Intro le_bytes32_def upt_conv_Cons)

lemma anchor_Intro: "anchor ''Intro'' = ''1cad35d4b3b9f624f82dbf237daaf188''"
  by (simp add: anchor_def md5_hex_def digest_Intro hex_byte_def hex_digit_def)

section \<open>Anchors\<close>

lemma rendered_id_toc:
  assumes "heading_level (nodeType h) \<noteq> None"
  shows "rendered_id format_date categories kids h = map_option toc_anchor (toc_entry_of h)"
  using assms
  by (cases "nodeType h")
     (auto simp: rendered_id_def renderNode_def heading_level_def toc_entry_of_def
        heading_defs element_id_def is_text_run_def split: option.splits)

lemma headings_of_levels: "h \<in> set (headings_of n) \<Longrightarrow> heading_level (nodeType h) \<noteq> None"
proof (induction n arbitrary: h)
  case (Node t c m v d)
  show ?case
  proof (cases "h = Node t c m v d \<and> heading_level t \<noteq> None")
    case True
    then show ?thesis by auto
  next
    case False
    with Node.prems obtain cs x where "c = Some cs" "x \<in> set cs" "h \<in> set (headings_of x)"
      by (cases c) (auto split: if_splits)
    then show ?thesis
      using Node.IH by auto
  qed
qed

lemma map_filter_cong_set:
  assumes "\<And>x. x \<in> set xs \<Longrightarrow> f x = g x"
  shows "List.map_filter f xs = List.map_filter g xs"
  using assms by (induction xs) (auto simp: List.map_filter_simps split: option.splits)

lemma map_map_filter:
  "map k (List.map_filter f xs) = List.map_filter (\<lambda>x. map_option k (f x)) xs"
  by (induction xs) (simp_all add: List.map_filter_simps split: option.splits)

lemma toc_anchors_rendered:
  "map toc_anchor (tableOfContents doc)
     = List.map_filter (rendered_id format_date categories kids) (headings_of doc)"
proof -
  have "map toc_anchor (tableOfContents doc)
          = List.map_filter (\<lambda>h. map_option toc_anchor (toc_entry_of h)) (headings_of doc)"
    by (simp add: tableOfContents_def map_map_filter)
  also have "\<dots> = List.map_filter (rendered_id format_date categories kids) (headings_of doc)"
    by (rule map_filter_cong_set) (simp add: rendered_id_toc headings_of_levels)
  finally show ?thesis .
qed

text \<open>
  Claim C1: the anchor is a function of the text alone, so two calls on the same string
  agree; a heading of level 2 to 6 that starts with a text-run gets the anchor of that text
  as its identifier from the renderer table and as its anchor in the table of contents;
  and over a whole document the anchors the table of contents lists are the identifiers
  the renderer table attaches, in the same order.
\<close>

theorem anchor_deterministic:
  "anchor s = anchor s
   \<and> (heading_level (nodeType h) \<noteq> None \<and> first_content h = Some c \<and> is_text_run c
        \<and> text_value c = Some v \<longrightarrow>
          rendered_id format_date categories kids h = Some (anchor v)
          \<and> map_option toc_anchor (toc_entry_of h) = Some (anchor v))
   \<and> map toc_anchor (tableOfContents doc)
       = List.map_filter (rendered_id format_date categories kids) (headings_of doc)"
proof -
  have "map_option toc_anchor (toc_entry_of h) = Some (anchor v)"
    if "heading_level (nodeType h) \<noteq> None" "first_content h = Some c" "is_text_run c"
      "text_value c = Some v"
    using that by (auto simp: toc_entry_of_def)
  then show ?thesis
    using rendered_id_toc [of h format_date categories kids]
      toc_anchors_rendered [of doc format_date categories kids]
    by auto
qed

text \<open>
  An instance: a document with three headings, the second of which starts with a link.
\<close>

theorem anchor_deterministic_witness:
  "rendered_id Some [] (\<lambda>h. []) (block BLOCKS_HEADING_2 [text_run ''Intro'' []])
      = Some (anchor ''Intro'')
   \<and> map toc_anchor (tableOfContents example_document) = [anchor ''Intro'', anchor ''Details'']
   \<and> List.map_filter (rendered_id Some [] (\<lambda>h. [])) (headings_of example_document)
      = [anchor ''Intro'', anchor ''Details'']"
  using anchor_deterministic [of _ "block BLOCKS_HEADING_2 [text_run ''Intro'' []]"
      "text_run ''Intro'' []" "''Intro''" Some "[]" "\<lambda>h. []" example_document]
  by (simp add: example_document_def shape_defs first_content_simps heading_level_def
        is_text_run_def tableOfContents_def toc_entry_of_def)

section \<open>Totality\<close>

lemma paragraph_classification:
  assumes "first_content n = Some c" and "marks c = Some ms"
  shows "paragraph_block n children =
           Inr (if \<exists>m \<in> set ms. mark_type m = ''code''
                then Element ''div'' [] [Element ''pre'' [] [Element ''code'' [] [Nodes children]]]
                else if nodeType c = TEXT then Element ''Text'' [] [Nodes children]
                else Element ''p'' [] [Nodes children])"
  using assms by (auto simp: paragraph_block_def find_None_iff)

lemma paragraph_without_children:
  assumes "first_content n = None"
  shows "paragraph_block n children = Inr (Element ''p'' [] [Nodes children])"
  using assms by (simp add: paragraph_block_def)

lemma handlers_total_otherwise:
  assumes "well_typed n" and "renderNode format_date categories (nodeType n) = Some h"
    and "\<And>c. nodeType n = BLOCKS_PARAGRAPH \<Longrightarrow> first_content n = Some c \<Longrightarrow> marks c \<noteq> None"
    and "\<And>e. target (data n) = Some (EntryTarget e) \<Longrightarrow> format_date (sys_createdAt e) \<noteq> None"
  shows "\<exists>out. h n children = Inr out"
proof (cases n)
  case (Node t c m v d)
  show ?thesis
  proof (cases "t = BLOCKS_PARAGRAPH")
    case True
    with assms(2) Node have h: "h = paragraph_block"
      by (simp add: renderNode_def)
    show ?thesis
    proof (cases "first_content n")
      case None
      with h show ?thesis by (simp add: paragraph_without_children)
    next
      case (Some x)
      with assms(3) True Node obtain ms where "marks x = Some ms"
        by fastforce
      with Some h show ?thesis by (simp add: paragraph_classification)
    qed
  next
    case False
    with assms(1,2,4) Node show ?thesis
      by (cases t)
         (auto simp: renderNode_def shape_ok_def heading_defs embedded_asset_def
            embedded_entry_block_def embedded_entry_inline_def hyperlink_def
            split: option.splits target.splits link_kind.splits)
  qed
qed

text \<open>
  Claim C2: rendering throws for no document of the data model. The paragraph handler
  breaks it: a paragraph that starts with a hyperlink is of the data model, and the
  handler the table holds for it throws a TypeError, since the hyperlink has no marks.
\<close>

theorem paragraph_with_leading_link_throws:
  "well_typed (block BLOCKS_DOCUMENT [paragraph_with_leading_link])
   \<and> renderNode Some [] (nodeType paragraph_with_leading_link) = Some paragraph_block
   \<and> paragraph_block paragraph_with_leading_link
        [external_link ''https://example.com/page'' ''This page'', TextNode '' has the details.'']
       = Inl TypeError"
  by (simp add: paragraph_with_leading_link_def shape_defs shape_ok_def renderNode_def
        paragraph_block_def first_content_simps)

text \<open>
  Claim C3: a paragraph is classified by its first child in three ways, the third being a
  generic paragraph for a first child that is an inline node. The first two hold
  (\<open>paragraph_classification\<close>); for a first child that is an inline embedded entry the
  handler throws instead of giving the generic paragraph.
\<close>

theorem paragraph_with_leading_entry_throws:
  "nodeType paragraph_with_leading_entry = BLOCKS_PARAGRAPH
   \<and> (\<exists>c. first_content paragraph_with_leading_entry = Some c
          \<and> nodeType c = INLINES_EMBEDDED_ENTRY \<and> well_typed c)
   \<and> paragraph_block paragraph_with_leading_entry [] = Inl TypeError
   \<and> paragraph_block paragraph_with_leading_entry [] \<noteq> Inr (Element ''p'' [] [Nodes []])"
  by (simp add: paragraph_with_leading_entry_def shape_defs shape_ok_def paragraph_block_def
        first_content_simps)

section \<open>Embedded entries\<close>

text \<open>
  Claim C4: the href of an embedded entry, block or inline, is the path of the category
  the entry's category id is mapped to, followed by a slash and the slug; where the
  mapping has no such id the href is the word undefined, a slash and the slug, and the
  handler returns all the same. The handlers only read the mapping.
\<close>

theorem embedded_entry_href:
  assumes "target (data n) = Some (EntryTarget e)"
  shows "(\<exists>label. embedded_entry_inline cm n children
            = Inr (Element ''a'' [(''href'', PString (resolved_href cm e))] [TextNode label]))
       \<and> (\<forall>date. format_date (sys_createdAt e) = Some date \<longrightarrow>
            (\<exists>t. embedded_entry_block format_date cm n children
               = Inr (Element ''SmallArticleCard''
                   [(''title'', PString t), (''href'', PString (resolved_href cm e)),
                    (''date'', PString date)] [])))"
  using assms
  by (simp add: embedded_entry_inline_def embedded_entry_block_def entry_href_def
        resolved_href_def template_def split: option.splits)

text \<open>
  An instance: the category of the inline entry is in the mapping, that of the block
  entry is not.
\<close>

theorem embedded_entry_href_witness:
  "embedded_entry_inline (categoryMap example_categories)
       (entry_node INLINES_EMBEDDED_ENTRY (example_entry ''cat1'')) []
     = Inr (Element ''a'' [(''href'', PString ''/tech/foo'')] [TextNode ''Foo''])
   \<and> embedded_entry_block Some (categoryMap example_categories)
       (entry_node BLOCKS_EMBEDDED_ENTRY (example_entry ''missing'')) []
     = Inr (Element ''SmallArticleCard''
         [(''title'', PString ''Foo''), (''href'', PString ''undefined/foo''),
          (''date'', PString ''2021-05-01T10:00:00Z'')] [])"
  using embedded_entry_href [of "entry_node INLINES_EMBEDDED_ENTRY (example_entry ''cat1'')"
       "example_entry ''cat1''" "categoryMap example_categories" "[]" Some]
    embedded_entry_href [of "entry_node BLOCKS_EMBEDDED_ENTRY (example_entry ''missing'')"
       "example_entry ''missing''" "categoryMap example_categories" "[]" Some]
  by (simp add: entry_node_def example_entry_def example_categories_def categoryMap_def
        resolved_href_def embedded_entry_inline_def embedded_entry_block_def)

section \<open>Links\<close>

lemma match_at_short_link:
  assumes "v \<noteq> []" and "\<not> list_ex line_terminator v"
  shows "match_at (''/youtu.be/'' @ v) = Some v"
  using assms by (simp add: match_at_def line_terminator_def)

lemma match_at_prefix:
  assumes "match_at s = Some g"
  shows "prefix ''/youtu'' s"
proof -
  from assms have "take 6 s = ''/youtu''"
    by (simp add: match_at_def split: if_splits)
  then have "s = ''/youtu'' @ drop 6 s"
    by (metis append_take_drop_id)
  then show ?thesis
    by (metis prefixI)
qed

lemma match_at_group:
  assumes "match_at s = Some g"
  shows "g = drop 10 s \<and> g \<noteq> []"
  using assms by (auto simp: match_at_def split: if_splits)

lemma String_match_None:
  assumes "\<not> sublist ''/youtu'' s"
  shows "String_match s = None"
  using assms
proof (induction s)
  case Nil
  then show ?case by simp
next
  case (Cons c cs)
  have "match_at (c # cs) = None"
  proof (cases "match_at (c # cs)")
    case None
    then show ?thesis .
  next
    case (Some g)
    then have "prefix ''/youtu'' (c # cs)"
      by (rule match_at_prefix)
    then have "sublist ''/youtu'' (c # cs)"
      by (rule prefix_imp_sublist)
    with Cons.prems show ?thesis by simp
  qed
  moreover from Cons.prems have "\<not> sublist ''/youtu'' cs"
    by (meson sublist_Cons_right)
  ultimately show ?case
    using Cons.IH by simp
qed

lemma String_match_found:
  assumes "match_at s = Some g"
  shows "\<exists>m g'. String_match (pre @ s) = Some [m, g'] \<and> suffix g g'"
proof (induction pre)
  case Nil
  from assms obtain c cs where s: "s = c # cs"
    by (cases s) (auto simp: match_at_def)
  with assms show ?case by simp
next
  case (Cons c pre)
  show ?case
  proof (cases "match_at (c # pre @ s)")
    case None
    with Cons.IH show ?thesis by simp
  next
    case (Some g')
    then have g': "g' = drop 10 (c # pre @ s)"
      using match_at_group by blast
    from assms have g: "g = drop 10 s"
      using match_at_group by blast
    have "suffix g g'"
    proof (cases "10 \<le> length (c # pre)")
      case True
      have "g' = drop 10 (c # pre) @ s"
        using True g' by (metis append_Cons drop_append diff_is_0_eq drop0)
      then show ?thesis
        using g by (metis suffix_drop suffix_appendI)
    next
      case False
      have "drop 10 ((c # pre) @ s) = drop (10 - length (c # pre)) s"
        using False by simp
      moreover have "drop (10 - length (c # pre)) s
           = take (length (c # pre)) (drop (10 - length (c # pre)) s) @ drop 10 s"
        using False
        by (metis (no_types, lifting) append_take_drop_id drop_drop
            le_add_diff_inverse nat_le_linear)
      ultimately show ?thesis
        using g g' by (metis append_Cons suffixI)
    qed
    with Some show ?thesis by simp
  qed
qed

lemma String_match_leftmost:
  assumes "match_at s = Some g" and "\<not> sublist ''/youtu'' pre" and "prefix ''/'' s"
  shows "String_match (pre @ s) = Some [s, g]"
  using assms(2)
proof (induction pre)
  case Nil
  from assms(1) obtain c cs where s: "s = c # cs"
    by (cases s) (auto simp: match_at_def)
  with assms(1) show ?case by simp
next
  case (Cons c pre)
  from Cons.prems have pre: "\<not> sublist ''/youtu'' pre"
    by (meson sublist_Cons_right)
  have "match_at (c # pre @ s) = None"
  proof (cases "match_at (c # pre @ s)")
    case None
    then show ?thesis .
  next
    case (Some g')
    then have t: "take 6 ((c # pre) @ s) = ''/youtu''"
      by (simp add: match_at_def split: if_splits)
    show ?thesis
    proof (cases "6 \<le> length (c # pre)")
      case True
      with t have "take 6 (c # pre) = ''/youtu''"
        by simp
      then have "prefix ''/youtu'' (c # pre)"
        by (metis take_is_prefix)
      then have "sublist ''/youtu'' (c # pre)"
        by (rule prefix_imp_sublist)
      with Cons.prems show ?thesis by simp
    next
      case False
      from assms(3) obtain r where r: "s = CHR ''/'' # r"
        by (auto simp: prefix_def)
      have "((c # pre) @ s) ! length (c # pre) = CHR ''/''"
        using r by (metis nth_append_length)
      moreover have "((c # pre) @ s) ! length (c # pre) = ''/youtu'' ! length (c # pre)"
        using False t by (metis not_le nth_take)
      moreover have "0 < length (c # pre)" by simp
      ultimately have "\<exists>k. 0 < k \<and> k < 6 \<and> ''/youtu'' ! k = CHR ''/''"
        using False by (metis not_le)
      then obtain k where k: "0 < k" "k < 6" "''/youtu'' ! k = CHR ''/''" by blast
      then have "k = 1 \<or> k = 2 \<or> k = 3 \<or> k = 4 \<or> k = 5" by arith
      with k(3) show ?thesis by auto
    qed
  qed
  with Cons.IH [OF pre] show ?case by simp
qed

lemma classify_example_page: "classify ''https://example.com/page'' = Generic"
  by (simp add: classify_def match_at_def)

lemma classify_short_link: "classify ''https://youtu.be/abc123'' = Video ''abc123''"
  by (simp add: classify_def match_at_def line_terminator_def)

lemma classify_watch_page: "classify ''https://youtube.com/watch?v=abc123'' = Generic"
  by (simp add: classify_def match_at_def)

lemma classify_no_identifier: "classify ''https://youtu.be/'' = Generic"
  by (simp add: classify_def match_at_def)

lemma classify_found:
  assumes "v \<noteq> []" and "\<not> list_ex line_terminator v"
  shows "\<exists>i. classify (pre @ ''/youtu.be/'' @ v) = Video i \<and> suffix v i"
proof -
  from assms have "match_at (''/youtu.be/'' @ v) = Some v"
    by (rule match_at_short_link)
  then obtain m g' where "String_match (pre @ ''/youtu.be/'' @ v) = Some [m, g']" and "suffix v g'"
    using String_match_found by blast
  then show ?thesis
    by (simp add: classify_def)
qed

lemma classify_leftmost:
  assumes "v \<noteq> []" and "\<not> list_ex line_terminator v" and "\<not> sublist ''/youtu'' pre"
  shows "classify (pre @ ''/youtu.be/'' @ v) = Video v"
proof -
  from assms(1,2) have "match_at (''/youtu.be/'' @ v) = Some v"
    by (rule match_at_short_link)
  moreover have "prefix ''/'' (''/youtu.be/'' @ v)"
    by simp
  ultimately have "String_match (pre @ ''/youtu.be/'' @ v) = Some [''/youtu.be/'' @ v, v]"
    using assms(3) by (intro String_match_leftmost)
  then show ?thesis
    by (simp add: classify_def)
qed

lemma classify_Generic:
  assumes "\<not> sublist ''/youtu'' w"
  shows "classify w = Generic"
  using String_match_None [OF assms] by (simp add: classify_def)

text \<open>
  What a video link looks like: the text \<^verbatim>\<open>/youtu\<close>, one character that is no line
  terminator, the text \<^verbatim>\<open>be/\<close> and the identifier up to the end. The character need
  not be a dot, since the dot of the pattern is not escaped.
\<close>

lemma match_at_shape:
  assumes "match_at s = Some g"
  shows "\<exists>c. s = ''/youtu'' @ [c] @ ''be/'' @ g \<and> \<not> line_terminator c
             \<and> g \<noteq> [] \<and> \<not> list_ex line_terminator g"
proof -
  from assms have *: "take 6 s = ''/youtu''" "10 < length s" "\<not> line_terminator (s ! 6)"
      "take 3 (drop 7 s) = ''be/''" "\<not> list_ex line_terminator (drop 10 s)" "g = drop 10 s"
    by (auto simp: match_at_def split: if_splits)
  have "s = take 6 s @ drop 6 s"
    by simp
  also have "drop 6 s = s ! 6 # drop 7 s"
  proof -
    from *(2) have "6 < length s" by simp
    then have "s ! 6 # drop (Suc 6) s = drop 6 s"
      by (rule Cons_nth_drop_Suc)
    then show ?thesis by simp
  qed
  also have "drop 7 s = take 3 (drop 7 s) @ drop 10 s"
    using append_take_drop_id [of 3 "drop 7 s"] by simp
  finally have "s = ''/youtu'' @ [s ! 6] @ ''be/'' @ g"
    using * by simp
  with * show ?thesis
    by auto
qed

lemma String_match_shape:
  assumes "String_match u = Some m"
  shows "\<exists>pre c i. u = pre @ ''/youtu'' @ [c] @ ''be/'' @ i \<and> m = [''/youtu'' @ [c] @ ''be/'' @ i, i]
             \<and> \<not> line_terminator c \<and> i \<noteq> [] \<and> \<not> list_ex line_terminator i"
  using assms
proof (induction u)
  case Nil
  then show ?case by simp
next
  case (Cons x xs)
  show ?case
  proof (cases "match_at (x # xs)")
    case None
    with Cons.prems have "String_match xs = Some m"
      by simp
    then obtain pre c i where "xs = pre @ ''/youtu'' @ [c] @ ''be/'' @ i"
        "m = [''/youtu'' @ [c] @ ''be/'' @ i, i]" "\<not> line_terminator c" "i \<noteq> []"
        "\<not> list_ex line_terminator i"
      using Cons.IH by blast
    then have "x # xs = (x # pre) @ ''/youtu'' @ [c] @ ''be/'' @ i
        \<and> m = [''/youtu'' @ [c] @ ''be/'' @ i, i] \<and> \<not> line_terminator c \<and> i \<noteq> []
        \<and> \<not> list_ex line_terminator i"
      by simp
    then show ?thesis by blast
  next
    case (Some g)
    with Cons.prems have m: "m = [x # xs, g]"
      by simp
    from Some obtain c where "x # xs = ''/youtu'' @ [c] @ ''be/'' @ g" "\<not> line_terminator c"
        "g \<noteq> []" "\<not> list_ex line_terminator g"
      using match_at_shape by blast
    with m have "x # xs = [] @ ''/youtu'' @ [c] @ ''be/'' @ g
        \<and> m = [''/youtu'' @ [c] @ ''be/'' @ g, g] \<and> \<not> line_terminator c \<and> g \<noteq> []
        \<and> \<not> list_ex line_terminator g"
      by simp
    then show ?thesis by blast
  qed
qed

lemma classify_Video_shape:
  assumes "classify u = Video i"
  shows "\<exists>pre c. u = pre @ ''/youtu'' @ [c] @ ''be/'' @ i \<and> \<not> line_terminator c
             \<and> i \<noteq> [] \<and> \<not> list_ex line_terminator i"
proof (cases "String_match u")
  case None
  with assms show ?thesis by (simp add: classify_def)
next
  case (Some m)
  then obtain pre c j where *: "u = pre @ ''/youtu'' @ [c] @ ''be/'' @ j"
      "m = [''/youtu'' @ [c] @ ''be/'' @ j, j]" "\<not> line_terminator c" "j \<noteq> []"
      "\<not> list_ex line_terminator j"
    using String_match_shape by blast
  with Some assms have "i = j"
    by (simp add: classify_def)
  with * show ?thesis by blast
qed

lemma unescaped_dot_example: "classify ''https://example.com/youtuXbe/abc123'' = Video ''abc123''"
  by (simp add: classify_def match_at_def line_terminator_def)

text \<open>
  The claim C5 as it stands, that the video branch is taken for the links of one host
  only, fails: a link to another host whose path ends like a short link is a video too.
\<close>

theorem other_host_is_video:
  "uri_host ''https://example.com/youtu.be/abc123'' \<noteq> ''youtu.be''
   \<and> classify ''https://example.com/youtu.be/abc123'' = Video ''abc123''"
  by (simp add: uri_host_def classify_def match_at_def line_terminator_def)

text \<open>
  Claim C5, amended: every URI is classified as exactly one of video and generic, with no
  error. The pattern is looked for anywhere in the URI and is not tied to the host. A URI
  that ends with \<^verbatim>\<open>/youtu.be/\<close> and a non-empty identifier free of line terminators is a
  video, whatever stands before, and the extracted identifier ends with that identifier; it
  is that identifier when nothing before contains \<^verbatim>\<open>/youtu\<close>. And only a URI of that shape
  is a video: a URI classified as a video ends with \<^verbatim>\<open>/youtu\<close>, one character that is no
  line terminator, \<^verbatim>\<open>be/\<close> and the extracted identifier, which is non-empty and free of
  line terminators. Every other URI is generic, as is one that does not contain \<^verbatim>\<open>/youtu\<close>.
  So \<^verbatim>\<open>https://youtu.be/abc123\<close> is the video \<^verbatim>\<open>abc123\<close>, while
  \<^verbatim>\<open>https://example.com/page\<close>, \<^verbatim>\<open>https://youtube.com/watch?v=abc123\<close> and
  \<^verbatim>\<open>https://youtu.be/\<close> are generic, and a hyperlink classified as a video renders as the
  video embed of the extracted identifier.
\<close>

theorem link_classification:
  "(classify u = Generic \<or> (\<exists>i. classify u = Video i))
   \<and> \<not> (classify u = Generic \<and> (\<exists>i. classify u = Video i))
   \<and> (v \<noteq> [] \<and> \<not> list_ex line_terminator v \<longrightarrow>
        (\<exists>i. classify (pre @ ''/youtu.be/'' @ v) = Video i \<and> suffix v i))
   \<and> (v \<noteq> [] \<and> \<not> list_ex line_terminator v \<and> \<not> sublist ''/youtu'' pre \<longrightarrow>
        classify (pre @ ''/youtu.be/'' @ v) = Video v)
   \<and> (classify y = Video j \<longrightarrow>
        (\<exists>p c. y = p @ ''/youtu'' @ [c] @ ''be/'' @ j \<and> \<not> line_terminator c)
        \<and> j \<noteq> [] \<and> \<not> list_ex line_terminator j)
   \<and> (\<not> sublist ''/youtu'' w \<longrightarrow> classify w = Generic)
   \<and> classify ''https://youtu.be/abc123'' = Video ''abc123''
   \<and> classify ''https://example.com/page'' = Generic
   \<and> classify ''https://youtube.com/watch?v=abc123'' = Generic
   \<and> classify ''https://youtu.be/'' = Generic
   \<and> (nodeType n = INLINES_HYPERLINK \<and> string_uri n = Some x \<and> classify x = Video i
        \<longrightarrow> hyperlink n children = Inr (video_embed i))"
proof -
  have "classify u = Generic \<or> (\<exists>i. classify u = Video i)"
    by (cases "classify u") simp_all
  moreover have "\<not> (classify u = Generic \<and> (\<exists>i. classify u = Video i))"
    by auto
  moreover have "nodeType n = INLINES_HYPERLINK \<and> string_uri n = Some x \<and> classify x = Video i
        \<longrightarrow> hyperlink n children = Inr (video_embed i)"
    by (simp add: hyperlink_def video_embed_def)
  moreover have "classify y = Video j \<longrightarrow>
        (\<exists>p c. y = p @ ''/youtu'' @ [c] @ ''be/'' @ j \<and> \<not> line_terminator c)
        \<and> j \<noteq> [] \<and> \<not> list_ex line_terminator j"
    using classify_Video_shape [of y j] by blast
  ultimately show ?thesis
    using classify_found [of v pre] classify_leftmost [of v pre] classify_Generic [of w]
      classify_short_link classify_example_page classify_watch_page classify_no_identifier
    by blast
qed

text \<open>
  An instance: a short link with the identifier \<^verbatim>\<open>xyz\<close>, the shape of the short link of
  the spec, its generic link, and the rendering of a short link.
\<close>

theorem link_classification_witness:
  "classify (''https:/'' @ ''/youtu.be/'' @ ''xyz'') = Video ''xyz''
   \<and> (\<exists>p c. ''https://youtu.be/abc123'' = p @ ''/youtu'' @ [c] @ ''be/'' @ ''abc123''
          \<and> \<not> line_terminator c)
   \<and> classify ''https://example.com/page'' = Generic
   \<and> hyperlink (hyperlink_node ''https://youtu.be/abc123'' [text_run ''Watch'' []])
         [TextNode ''Watch'']
       = Inr (Element ''YouTubeEmbed'' [] [Element ''YouTube'' [(''videoId'', PString ''abc123'')] []])"
  using link_classification [of _ "''xyz''" "''https:/''" "''https://youtu.be/abc123''" "''abc123''"
      "''https://example.com/page''"
      "hyperlink_node ''https://youtu.be/abc123'' [text_run ''Watch'' []]"
      "''https://youtu.be/abc123''" "''abc123''" "[TextNode ''Watch'']"]
  by (simp add: sublist_Cons_right line_terminator_def hyperlink_node_def string_uri_def
        video_embed_def)

section \<open>Headings\<close>

text \<open>
  Claim C6: the renderer table has a handler for every heading of level 2 to 6. On a
  heading whose first child is a text-run it gives the heading element of that level, with
  the anchor of the text as its identifier; on a heading whose first child is not a
  text-run it gives the children alone, with no identifier.
\<close>

theorem heading_anchor_or_fallback:
  assumes "heading_level t = Some l"
  shows "\<exists>h. renderNode format_date categories t = Some h
       \<and> (first_content n = Some c \<and> is_text_run c \<and> text_value c = Some v \<longrightarrow>
           (\<exists>sx. h n children = Inr (Element ''Typography''
                ((''id'', PString (anchor v)) # (''variant'', PString (level_variant l)) # sx)
                [Nodes children])))
       \<and> ((\<forall>c. first_content n = Some c \<longrightarrow> nodeType c \<noteq> TEXT) \<longrightarrow>
            h n children = Inr (Nodes children)
            \<and> element_id (Nodes children) = None)"
  using assms
  by (cases t)
     (auto simp: heading_level_def renderNode_def heading_defs is_text_run_def
        level_variant_def hex_digit_def element_id_def split: option.splits)

text \<open>
  An instance: what the table gives for a heading of level 3 that starts with a text-run,
  and for one that starts with a link.
\<close>

theorem heading_anchor_or_fallback_witness:
  "(\<exists>h. renderNode Some [] BLOCKS_HEADING_3 = Some h
      \<and> h (block BLOCKS_HEADING_3 [text_run ''Intro'' [], text_run '' more'' []])
          [TextNode ''Intro'', TextNode '' more'']
        = Inr (Element ''Typography''
            [(''id'', PString ''1cad35d4b3b9f624f82dbf237daaf188''), (''variant'', PString ''h3''),
             (''sx'', PObject [(''borderBottom'', PString ''solid 2px''), (''lineHeight'', PNumber 2)])]
            [Nodes [TextNode ''Intro'', TextNode '' more'']]))
   \<and> (\<exists>h. renderNode Some [] BLOCKS_HEADING_3 = Some h
      \<and> h (block BLOCKS_HEADING_3 [hyperlink_node ''https://example.com/page'' [], text_run ''more'' []])
          [TextNode ''x'']
        = Inr (Nodes [TextNode ''x'']))"
  using heading_anchor_or_fallback [of BLOCKS_HEADING_3 3 Some "[]"
      "block BLOCKS_HEADING_3 [text_run ''Intro'' [], text_run '' more'' []]"
      "text_run ''Intro'' []" "''Intro''" "[TextNode ''Intro'', TextNode '' more'']"]
    heading_anchor_or_fallback [of BLOCKS_HEADING_3 3 Some "[]"
      "block BLOCKS_HEADING_3 [hyperlink_node ''https://example.com/page'' [], text_run ''more'' []]"
      _ _ "[TextNode ''x'']"]
  by (simp add: heading_level_def renderNode_def shape_defs first_content_simps
        is_text_run_def level_variant_def hex_digit_def heading_defs anchor_Intro)

section \<open>Embedded assets\<close>

text \<open>
  Claim C7: an embedded asset renders as an image with the URL of the asset after
  \<^verbatim>\<open>https:\<close>, its width, its height and its title, followed by no caption when the
  description is the empty string, and by a caption holding exactly the description when
  the description is a non-empty string.
\<close>

theorem asset_caption:
  assumes "target (data n) = Some (AssetTarget a)"
  shows "(description a = Some '''' \<longrightarrow>
            embedded_asset n children = Inr (box [asset_image a, Null]))
       \<and> (\<forall>d. description a = Some d \<and> d \<noteq> '''' \<longrightarrow>
            embedded_asset n children = Inr (box [asset_image a, caption (TextNode d)]))"
  using assms
  by (simp add: embedded_asset_def box_def asset_image_def caption_def opt_child_def)

text \<open>An instance: the same asset with an empty and with a non-empty description.\<close>

theorem asset_caption_witness:
  "embedded_asset (asset_node (example_asset (Some ''''))) []
     = Inr (Element ''Box'' [(''sx'', PObject [(''margin'', PString ''16px 0'')])]
         [Element ''Image''
            [(''src'', PString ''https://images.example.com/a.png''), (''width'', PNumber 640),
             (''height'', PNumber 480), (''alt'', PString ''A'')] [],
          Null])
   \<and> embedded_asset (asset_node (example_asset (Some ''A photo''))) []
     = Inr (Element ''Box'' [(''sx'', PObject [(''margin'', PString ''16px 0'')])]
         [Element ''Image''
            [(''src'', PString ''https://images.example.com/a.png''), (''width'', PNumber 640),
             (''height'', PNumber 480), (''alt'', PString ''A'')] [],
          Element ''Typography'' [(''variant'', PString ''caption'')] [TextNode ''A photo'']])"
  using asset_caption [of "asset_node (example_asset (Some ''''))" "example_asset (Some '''')" "[]"]
    asset_caption [of "asset_node (example_asset (Some ''A photo''))"
      "example_asset (Some ''A photo'')" "[]"]
  by (simp add: asset_node_def example_asset_def box_def asset_image_def caption_def
        opt_prop_def)

text \<open>
  Claim C9: the caption is left out for the empty string only. An asset with no
  description at all gets a caption, whose content is the undefined description.
\<close>

theorem absent_description_is_captioned:
  assumes "target (data n) = Some (AssetTarget a)"
  shows "(description a = None \<longrightarrow>
            embedded_asset n children = Inr (box [asset_image a, caption Undefined]))
       \<and> ((\<exists>c. embedded_asset n children = Inr (box [asset_image a, caption c]))
            \<longleftrightarrow> description a \<noteq> Some '''')"
  using assms
  by (auto simp: embedded_asset_def box_def asset_image_def caption_def opt_child_def)

text \<open>An instance: an asset without a description.\<close>

theorem absent_description_is_captioned_witness:
  "embedded_asset (asset_node (example_asset None)) []
     = Inr (Element ''Box'' [(''sx'', PObject [(''margin'', PString ''16px 0'')])]
         [Element ''Image''
            [(''src'', PString ''https://images.example.com/a.png''), (''width'', PNumber 640),
             (''height'', PNumber 480), (''alt'', PString ''A'')] [],
          Element ''Typography'' [(''variant'', PString ''caption'')] [Undefined]])"
  using absent_description_is_captioned [of "asset_node (example_asset None)"
      "example_asset None" "[]"]
  by (simp add: asset_node_def example_asset_def box_def asset_image_def caption_def
        opt_prop_def)

section \<open>Generic links\<close>

lemma link_label_text_children:
  assumes "\<forall>c \<in> set (children_of n). is_text_run c"
  shows "link_label n u = (case first_text_child n of None \<Rightarrow> u | Some v \<Rightarrow> v)"
proof (cases "content n")
  case None
  then show ?thesis
    by (simp add: link_label_def first_content_def first_text_child_def)
next
  case (Some cs)
  show ?thesis
  proof (cases cs)
    case Nil
    with Some show ?thesis
      by (simp add: link_label_def first_content_def first_text_child_def)
  next
    case (Cons c cs')
    with Some assms have "is_text_run c"
      by (simp add: children_of_def)
    with Some Cons show ?thesis
      by (auto simp: link_label_def first_content_def first_text_child_def is_text_run_def)
  qed
qed

text \<open>
  Claim C8: a hyperlink classified as generic, with text-runs as its children as in the
  data model, renders as an external link labelled with the value of its first text child,
  or with the URI itself when it has no text child; a hyperlink node whose data has no
  string \<^verbatim>\<open>uri\<close> renders as its children alone.
\<close>

theorem generic_link_label:
  assumes "nodeType n = INLINES_HYPERLINK"
  shows "(\<forall>u. string_uri n = Some u \<and> classify u = Generic
              \<and> (\<forall>c \<in> set (children_of n). is_text_run c) \<longrightarrow>
            hyperlink n children
              = Inr (external_link u (case first_text_child n of None \<Rightarrow> u | Some v \<Rightarrow> v)))
       \<and> (string_uri n = None \<longrightarrow> hyperlink n children = Inr (Nodes children))"
  using assms
  by (auto simp: hyperlink_def external_link_def link_label_text_children)

text \<open>
  An instance: a generic link with two text children, one with none, and a hyperlink node
  without a \<^verbatim>\<open>uri\<close>.
\<close>

theorem generic_link_label_witness:
  "hyperlink (hyperlink_node ''https://example.com/page'' [text_run ''the page'' [], text_run ''!'' []])
       [TextNode ''the page'', TextNode ''!'']
     = Inr (Element ''a''
         [(''href'', PString ''https://example.com/page''), (''target'', PString ''_blank''),
          (''rel'', PString ''noreferrer noopener'')]
         [TextNode ''the page''])
   \<and> hyperlink (hyperlink_node ''https://example.com/page'' []) []
     = Inr (Element ''a''
         [(''href'', PString ''https://example.com/page''), (''target'', PString ''_blank''),
          (''rel'', PString ''noreferrer noopener'')]
         [TextNode ''https://example.com/page''])
   \<and> hyperlink (block INLINES_HYPERLINK [text_run ''the page'' []]) [TextNode ''the page'']
     = Inr (Nodes [TextNode ''the page''])"
  using generic_link_label [of "hyperlink_node ''https://example.com/page'' [text_run ''the page'' [], text_run ''!'' []]"
      "[TextNode ''the page'', TextNode ''!'']"]
    generic_link_label [of "hyperlink_node ''https://example.com/page'' []" "[]"]
    generic_link_label [of "block INLINES_HYPERLINK [text_run ''the page'' []]"
      "[TextNode ''the page'']"]
  by (simp add: shape_defs string_uri_def classify_example_page children_of_def
        is_text_run_def first_text_child_def external_link_def)

text \<open>
  Claim C10: the label of a generic link depends on the first child alone: when the first
  child has no value the label is the URI, whatever the later children are. And a heading
  whose first child is a text node without a value renders as its children alone, as a
  heading that starts with a node of another type does.
\<close>

theorem label_by_first_child_alone:
  "(nodeType n = INLINES_HYPERLINK \<and> string_uri n = Some u \<and> classify u = Generic
      \<and> first_content n = Some c \<and> text_value c = None
      \<longrightarrow> hyperlink n children = Inr (external_link u u))
   \<and> (heading_level t = Some l \<and> renderNode format_date categories t = Some h
      \<and> first_content hn = Some hc \<and> nodeType hc = TEXT \<and> text_value hc = None
      \<longrightarrow> h hn hchildren = Inr (Nodes hchildren))"
  by (cases t)
     (auto simp: hyperlink_def external_link_def link_label_def heading_level_def
        renderNode_def heading_defs)

text \<open>
  An instance: a generic link whose first child is an inline entry and whose second child
  is a text-run, and a heading whose first child is a text node without a value.
\<close>

theorem label_by_first_child_alone_witness:
  "hyperlink (hyperlink_node ''https://example.com/page''
        [entry_node INLINES_EMBEDDED_ENTRY (example_entry ''cat1''), text_run ''the page'' []]) []
     = Inr (Element ''a''
         [(''href'', PString ''https://example.com/page''), (''target'', PString ''_blank''),
          (''rel'', PString ''noreferrer noopener'')]
         [TextNode ''https://example.com/page''])
   \<and> heading_2 (block BLOCKS_HEADING_2 [Node TEXT None (Some []) None no_data, text_run ''Intro'' []])
       [TextNode ''Intro'']
     = Inr (Nodes [TextNode ''Intro''])"
  using label_by_first_child_alone [of "hyperlink_node ''https://example.com/page''
        [entry_node INLINES_EMBEDDED_ENTRY (example_entry ''cat1''), text_run ''the page'' []]"
       "''https://example.com/page''"
       "entry_node INLINES_EMBEDDED_ENTRY (example_entry ''cat1'')" "[]"
       BLOCKS_HEADING_2 2 Some "[]" heading_2
       "block BLOCKS_HEADING_2 [Node TEXT None (Some []) None no_data, text_run ''Intro'' []]"
       "Node TEXT None (Some []) None no_data" "[TextNode ''Intro'']"]
  by (simp add: shape_defs string_uri_def classify_example_page first_content_simps
        external_link_def heading_level_def renderNode_def)

end
